theory Spec2Isabelle
  imports Main "HOL-Library.Word"
begin

section \<open>Handles, native references and the host runtime\<close>

text \<open>
  The bridge exchanges two kinds of references: handles (\<open>HPy\<close>) and native object
  pointers (\<open>PyObject *\<close>). A native pointer is \<open>None\<close> for \<open>NULL\<close> and \<open>Some p\<close>
  for the object at address \<open>p\<close>.
\<close>

type_synonym pyobject = nat
type_synonym pyptr = "pyobject option"

text \<open>
  Modelled from the spec: the handle type \<open>HPy\<close> and \<open>HPy_NULL\<close> / \<open>HPy_IsNull\<close> are
  declared in \<open>hpy.h\<close>, which is not part of the sources. The spec says that a
  null-handle sentinel exists and is distinguishable from every valid handle.
\<close>

datatype hpy = HPy_NULL | HPy nat

fun HPy_IsNull :: "hpy \<Rightarrow> bool" where
  "HPy_IsNull HPy_NULL = True"
| "HPy_IsNull (HPy i) = False"

text \<open>
  Every call that the bridge makes to a primitive of the context or of the host runtime
  is recorded, in order, in a trace. The state of a run is the state of the host
  (\<open>world\<close>, of a type \<open>'w\<close> the bridge never inspects) together with that trace.
\<close>

datatype event =
    Ev_Err_SetString hpy string
  | Ev_Tuple_FromArray "hpy list" nat
  | Ev_Close hpy
  | Ev_CallObject pyptr pyptr
  | Ev_Call pyptr pyptr pyptr
  | Ev_Vectorcall pyptr "pyptr list" "64 word" pyptr
  | Ev_Vectorcall_legacy pyptr "pyptr list" "64 word" pyptr
  | Ev_VectorcallMethod pyptr "pyptr list" "64 word" pyptr
  | Ev_GetAttr pyptr pyptr
  | Ev_DECREF pyptr
  | Ev_noargs hpy
  | Ev_o hpy hpy
  | Ev_varargs hpy "hpy list" int

record 'w state =
  world :: 'w
  trace :: "event list"

definition prim :: "event \<Rightarrow> ('w \<Rightarrow> 'a \<times> 'w) \<Rightarrow> 'w state \<Rightarrow> 'a \<times> 'w state" where
  "prim e f s = (case f (world s) of (r, w') \<Rightarrow> (r, \<lparr>world = w', trace = trace s @ [e]\<rparr>))"

definition prim_void :: "event \<Rightarrow> ('w \<Rightarrow> 'w) \<Rightarrow> 'w state \<Rightarrow> 'w state" where
  "prim_void e f s = \<lparr>world = f (world s), trace = trace s @ [e]\<rparr>"

text \<open>
  The context \<open>HPyContext *ctx\<close>: the constant handle \<open>ctx->h_TypeError\<close> and the
  context functions behind \<open>HPyTuple_Check\<close>, \<open>HPyDict_Check\<close>, \<open>HPyErr_SetString\<close>,
  \<open>HPyTuple_FromArray\<close> and \<open>HPy_Close\<close>. Their implementations are outside the
  sources and are parameters here.
\<close>

record 'w HPyContext =
  h_TypeError :: hpy
  ctx_Tuple_Check :: "'w \<Rightarrow> hpy \<Rightarrow> bool"
  ctx_Dict_Check :: "'w \<Rightarrow> hpy \<Rightarrow> bool"
  ctx_Err_SetString :: "hpy \<Rightarrow> string \<Rightarrow> 'w \<Rightarrow> 'w"
  ctx_Tuple_FromArray :: "hpy list \<Rightarrow> nat \<Rightarrow> 'w \<Rightarrow> hpy \<times> 'w"
  ctx_Close :: "hpy \<Rightarrow> 'w \<Rightarrow> 'w"

definition HPyTuple_Check :: "'w HPyContext \<Rightarrow> hpy \<Rightarrow> 'w state \<Rightarrow> bool" where
  "HPyTuple_Check ctx h s = ctx_Tuple_Check ctx (world s) h"

definition HPyDict_Check :: "'w HPyContext \<Rightarrow> hpy \<Rightarrow> 'w state \<Rightarrow> bool" where
  "HPyDict_Check ctx h s = ctx_Dict_Check ctx (world s) h"

definition HPyErr_SetString :: "'w HPyContext \<Rightarrow> hpy \<Rightarrow> string \<Rightarrow> 'w state \<Rightarrow> 'w state" where
  "HPyErr_SetString ctx h_type msg = prim_void (Ev_Err_SetString h_type msg) (ctx_Err_SetString ctx h_type msg)"

definition HPyTuple_FromArray :: "'w HPyContext \<Rightarrow> hpy list \<Rightarrow> nat \<Rightarrow> 'w state \<Rightarrow> hpy \<times> 'w state" where
  "HPyTuple_FromArray ctx items n = prim (Ev_Tuple_FromArray items n) (ctx_Tuple_FromArray ctx items n)"

definition HPy_Close :: "'w HPyContext \<Rightarrow> hpy \<Rightarrow> 'w state \<Rightarrow> 'w state" where
  "HPy_Close ctx h = prim_void (Ev_Close h) (ctx_Close ctx h)"

text \<open>
  The host runtime: the handle translation \<open>_h2py\<close> / \<open>_py2h\<close> of \<open>handles.h\<close> (not
  part of the sources; a pure conversion between a handle and the native reference it
  stands for) and the functions and macros of the host's C interface that the bridge
  calls. \<open>_PyObject_Vectorcall\<close> is the entry point of hosts older than 3.9; an
  identifier cannot begin with an underscore here, so it is \<open>api_Vectorcall_legacy\<close>.
  \<open>PyTuple_GET_SIZE\<close> yields a \<open>Py_ssize_t\<close>, kept as its 64-bit pattern.
\<close>

record 'w runtime =
  h2py :: "hpy \<Rightarrow> pyptr"
  py2h :: "pyptr \<Rightarrow> hpy"
  api_CallObject :: "pyptr \<Rightarrow> pyptr \<Rightarrow> 'w \<Rightarrow> pyptr \<times> 'w"
  api_Call :: "pyptr \<Rightarrow> pyptr \<Rightarrow> pyptr \<Rightarrow> 'w \<Rightarrow> pyptr \<times> 'w"
  api_Vectorcall :: "pyptr \<Rightarrow> pyptr list \<Rightarrow> 64 word \<Rightarrow> pyptr \<Rightarrow> 'w \<Rightarrow> pyptr \<times> 'w"
  api_Vectorcall_legacy :: "pyptr \<Rightarrow> pyptr list \<Rightarrow> 64 word \<Rightarrow> pyptr \<Rightarrow> 'w \<Rightarrow> pyptr \<times> 'w"
  api_VectorcallMethod :: "pyptr \<Rightarrow> pyptr list \<Rightarrow> 64 word \<Rightarrow> pyptr \<Rightarrow> 'w \<Rightarrow> pyptr \<times> 'w"
  api_GetAttr :: "pyptr \<Rightarrow> pyptr \<Rightarrow> 'w \<Rightarrow> pyptr \<times> 'w"
  api_DECREF :: "pyptr \<Rightarrow> 'w \<Rightarrow> 'w"
  api_Tuple_Check :: "'w \<Rightarrow> pyptr \<Rightarrow> bool"
  api_Tuple_GET_SIZE :: "'w \<Rightarrow> pyptr \<Rightarrow> 64 word"
  api_Tuple_GET_ITEM :: "'w \<Rightarrow> pyptr \<Rightarrow> nat \<Rightarrow> pyptr"

definition PyObject_CallObject :: "'w runtime \<Rightarrow> pyptr \<Rightarrow> pyptr \<Rightarrow> 'w state \<Rightarrow> pyptr \<times> 'w state" where
  "PyObject_CallObject py callable args = prim (Ev_CallObject callable args) (api_CallObject py callable args)"

definition PyObject_Call :: "'w runtime \<Rightarrow> pyptr \<Rightarrow> pyptr \<Rightarrow> pyptr \<Rightarrow> 'w state \<Rightarrow> pyptr \<times> 'w state" where
  "PyObject_Call py callable args kw = prim (Ev_Call callable args kw) (api_Call py callable args kw)"

section \<open>Outbound call adapter: \<open>ctx_CallTupleDict\<close>\<close>

definition ctx_CallTupleDict ::
  "'w runtime \<Rightarrow> 'w HPyContext \<Rightarrow> hpy \<Rightarrow> hpy \<Rightarrow> hpy \<Rightarrow> 'w state \<Rightarrow> hpy \<times> 'w state" where
  "ctx_CallTupleDict py ctx callable args kw s =
    (if \<not> HPy_IsNull args \<and> \<not> HPyTuple_Check ctx args s then
       (HPy_NULL, HPyErr_SetString ctx (h_TypeError ctx)
          ''HPy_CallTupleDict requires args to be a tuple or null handle'' s)
     else if \<not> HPy_IsNull kw \<and> \<not> HPyDict_Check ctx kw s then
       (HPy_NULL, HPyErr_SetString ctx (h_TypeError ctx)
          ''HPy_CallTupleDict requires kw to be a dict or null handle'' s)
     else
       (case
          (if HPy_IsNull kw then
             PyObject_CallObject py (h2py py callable) (h2py py args) s
           else if \<not> HPy_IsNull args then
             PyObject_Call py (h2py py callable) (h2py py args) (h2py py kw) s
           else
             (case HPyTuple_FromArray ctx [] 0 s of (empty_tuple, s1) \<Rightarrow>
               (case PyObject_Call py (h2py py callable) (h2py py empty_tuple) (h2py py kw) s1 of
                 (obj, s2) \<Rightarrow> (obj, HPy_Close ctx empty_tuple s2))))
        of (obj, s') \<Rightarrow> (py2h py obj, s')))"

text \<open>
  The reference the spec compares \<open>ctx_CallTupleDict\<close> with: a direct invocation of the
  host's call primitive, with an empty tuple substituted for null args when kwargs is
  non-null, and with null args passed through unchanged otherwise.
\<close>

definition direct_call ::
  "'w runtime \<Rightarrow> 'w HPyContext \<Rightarrow> hpy \<Rightarrow> hpy \<Rightarrow> hpy \<Rightarrow> 'w state \<Rightarrow> pyptr \<times> 'w state" where
  "direct_call py ctx callable args kw s =
    (if HPy_IsNull kw then PyObject_CallObject py (h2py py callable) (h2py py args) s
     else if HPy_IsNull args then
       (case HPyTuple_FromArray ctx [] 0 s of (empty_tuple, s1) \<Rightarrow>
          PyObject_Call py (h2py py callable) (h2py py empty_tuple) (h2py py kw) s1)
     else PyObject_Call py (h2py py callable) (h2py py args) (h2py py kw) s)"

section \<open>Outbound call adapter: \<open>ctx_Call\<close> and \<open>ctx_CallMethod\<close>\<close>

text \<open>
  Ways in which a run ends without returning: a failed \<open>assert\<close> (the assertions are
  compiled in), \<open>abort()\<close>, an access outside an array or through \<open>NULL\<close>, and a call
  of a native function through a pointer cast to a shape the function does not have.
  The state reached when the run stopped is kept beside the fault.
\<close>

datatype fault = AssertionFailed | Aborted | InvalidMemoryAccess | IncompatibleCall

definition PyObject_Vectorcall ::
  "'w runtime \<Rightarrow> pyptr \<Rightarrow> pyptr list \<Rightarrow> 64 word \<Rightarrow> pyptr \<Rightarrow> 'w state \<Rightarrow> pyptr \<times> 'w state" where
  "PyObject_Vectorcall py callable args nargsf kwnames =
     prim (Ev_Vectorcall callable args nargsf kwnames) (api_Vectorcall py callable args nargsf kwnames)"

definition PyObject_Vectorcall_legacy ::
  "'w runtime \<Rightarrow> pyptr \<Rightarrow> pyptr list \<Rightarrow> 64 word \<Rightarrow> pyptr \<Rightarrow> 'w state \<Rightarrow> pyptr \<times> 'w state" where
  "PyObject_Vectorcall_legacy py callable args nargsf kwnames =
     prim (Ev_Vectorcall_legacy callable args nargsf kwnames)
       (api_Vectorcall_legacy py callable args nargsf kwnames)"

definition PyObject_VectorcallMethod ::
  "'w runtime \<Rightarrow> pyptr \<Rightarrow> pyptr list \<Rightarrow> 64 word \<Rightarrow> pyptr \<Rightarrow> 'w state \<Rightarrow> pyptr \<times> 'w state" where
  "PyObject_VectorcallMethod py name args nargsf kwnames =
     prim (Ev_VectorcallMethod name args nargsf kwnames) (api_VectorcallMethod py name args nargsf kwnames)"

definition PyObject_GetAttr :: "'w runtime \<Rightarrow> pyptr \<Rightarrow> pyptr \<Rightarrow> 'w state \<Rightarrow> pyptr \<times> 'w state" where
  "PyObject_GetAttr py v name = prim (Ev_GetAttr v name) (api_GetAttr py v name)"

definition Py_DECREF :: "'w runtime \<Rightarrow> pyptr \<Rightarrow> 'w state \<Rightarrow> 'w state" where
  "Py_DECREF py v = prim_void (Ev_DECREF v) (api_DECREF py v)"

text \<open>
  Lines 49 to 58 of \<open>ctx_Call\<close> and lines 79 to 88 of \<open>ctx_CallMethod\<close> are the same
  text: they yield \<open>kwnames\<close> and \<open>n_all_args\<close>. \<open>size_t\<close> is 64 bits wide and the sum
  wraps around.
\<close>

definition count_all_args ::
  "'w runtime \<Rightarrow> 64 word \<Rightarrow> hpy \<Rightarrow> 'w state \<Rightarrow> fault + (pyptr \<times> 64 word)" where
  "count_all_args py nargs h_kwnames s =
    (if HPy_IsNull h_kwnames then Inr (None, nargs)
     else
       (let kwnames = h2py py h_kwnames in
        if kwnames = None then Inl AssertionFailed
        else if \<not> api_Tuple_Check py (world s) kwnames then Inl AssertionFailed
        else
          (let n_all_args = nargs + api_Tuple_GET_SIZE py (world s) kwnames in
           if \<not> (n_all_args \<ge> nargs) then Inl AssertionFailed
           else Inr (kwnames, n_all_args))))"

text \<open>
  \<open>alloca\<close> of a number of bytes gives an array with room for as many 8-byte entries
  (\<open>sizeof(PyObject *)\<close> and \<open>sizeof(HPy)\<close> are both 8) as fit into it, each holding
  \<open>fill\<close> until it is written.
\<close>

definition alloca :: "'a \<Rightarrow> 64 word \<Rightarrow> 'a list" where
  "alloca fill bytes = replicate (unat bytes div 8) fill"

text \<open>
  The staging loop \<open>for (i = 0; i < n_all_args; i++) args[i] = _h2py(h_args[i])\<close>.
  The caller's array \<open>h_args\<close> is the list of the handles it holds; a read beyond it, or
  a write beyond the staged buffer, is an invalid access.
\<close>

function stage_loop ::
  "(hpy \<Rightarrow> pyptr) \<Rightarrow> hpy list \<Rightarrow> nat \<Rightarrow> nat \<Rightarrow> pyptr list \<Rightarrow> fault + pyptr list" where
  "stage_loop conv h_args n_all_args i args =
    (if i < n_all_args then
       (if i < length h_args \<and> i < length args
        then stage_loop conv h_args n_all_args (Suc i) (args[i := conv (h_args ! i)])
        else Inl InvalidMemoryAccess)
     else Inr args)"
  by pat_completeness auto
termination
  by (relation "measure (\<lambda>(conv, h_args, n, i, args). n - i)") auto

declare stage_loop.simps [simp del]

text \<open>
  \<open>ctx_Call\<close>. The branch for hosts older than 3.9 names \<open>callable\<close>, which is neither a
  parameter nor a local of the function (the parameter is \<open>h_callable\<close>); the model
  takes what that name denotes as an argument of its own.
\<close>

definition ctx_Call ::
  "'w runtime \<Rightarrow> nat \<Rightarrow> hpy \<Rightarrow> 'w HPyContext \<Rightarrow> hpy \<Rightarrow> hpy list \<Rightarrow> 64 word \<Rightarrow> hpy \<Rightarrow> 'w state
     \<Rightarrow> (fault + hpy) \<times> 'w state" where
  "ctx_Call py PY_VERSION_HEX callable ctx h_callable h_args nargs h_kwnames s =
    (case count_all_args py nargs h_kwnames s of
       Inl f \<Rightarrow> (Inl f, s)
     | Inr (kwnames, n_all_args) \<Rightarrow>
        (case stage_loop (h2py py) h_args (unat n_all_args) 0 (alloca None (n_all_args * 8)) of
           Inl f \<Rightarrow> (Inl f, s)
         | Inr args \<Rightarrow>
            (case
               (if PY_VERSION_HEX < 0x03090000
                then PyObject_Vectorcall_legacy py (h2py py callable) args nargs kwnames s
                else PyObject_Vectorcall py (h2py py h_callable) args nargs kwnames s)
             of (result, s') \<Rightarrow> (Inr (py2h py result), s'))))"

definition ctx_CallMethod ::
  "'w runtime \<Rightarrow> nat \<Rightarrow> 'w HPyContext \<Rightarrow> hpy \<Rightarrow> hpy list \<Rightarrow> 64 word \<Rightarrow> hpy \<Rightarrow> 'w state
     \<Rightarrow> (fault + hpy) \<times> 'w state" where
  "ctx_CallMethod py PY_VERSION_HEX ctx h_name h_args nargs h_kwnames s =
    (case count_all_args py nargs h_kwnames s of
       Inl f \<Rightarrow> (Inl f, s)
     | Inr (kwnames, n_all_args) \<Rightarrow>
        (case stage_loop (h2py py) h_args (unat n_all_args) 0 (alloca None (n_all_args * 8)) of
           Inl f \<Rightarrow> (Inl f, s)
         | Inr args \<Rightarrow>
            (if PY_VERSION_HEX < 0x03090000 then
               (case args of
                  [] \<Rightarrow> (Inl InvalidMemoryAccess, s)
                | args_0 # _ \<Rightarrow>
                   (case PyObject_GetAttr py args_0 (h2py py h_name) s of (method, s1) \<Rightarrow>
                      if method = None then (Inr HPy_NULL, s1)
                      else
                        (case PyObject_Vectorcall_legacy py method args nargs None s1 of
                           (result, s2) \<Rightarrow> (Inr (py2h py result), Py_DECREF py method s2))))
             else
               (case PyObject_VectorcallMethod py (h2py py h_name) args nargs kwnames s of
                  (result, s') \<Rightarrow> (Inr (py2h py result), s')))))"

section \<open>Inbound trampoline dispatcher\<close>

text \<open>
  Modelled from the spec: the enumeration \<open>HPyMeth_Signature\<close> is declared in a header
  that is not part of the sources. The spec lists the tags NO_ARGS, SINGLE_ARG and
  VAR_ARGS and a reserved keywords variant; the switch names them \<open>HPyMeth_NOARGS\<close>,
  \<open>HPyMeth_O\<close>, \<open>HPyMeth_VARARGS\<close> and, in the case that is commented out,
  \<open>HPy_METH_KEYWORDS\<close>. Any other value an enumeration object can hold is
  \<open>HPyMeth_unknown\<close>.
\<close>

datatype HPyMeth_Signature =
    HPyMeth_NOARGS
  | HPyMeth_O
  | HPyMeth_VARARGS
  | HPy_METH_KEYWORDS
  | HPyMeth_unknown int

text \<open>
  The untyped pointer \<open>void *func\<close> points to a native function of one of three shapes.
  A cast to the shape the function has gives the function back; a call through any
  other cast is a fault.
\<close>

datatype ('c, 'w) native =
    Native_noargs "'c \<Rightarrow> hpy \<Rightarrow> 'w \<Rightarrow> hpy \<times> 'w"
  | Native_o "'c \<Rightarrow> hpy \<Rightarrow> hpy \<Rightarrow> 'w \<Rightarrow> hpy \<times> 'w"
  | Native_varargs "'c \<Rightarrow> hpy \<Rightarrow> hpy list \<Rightarrow> 64 word \<Rightarrow> 'w \<Rightarrow> hpy \<times> 'w"

text \<open>
  The loop \<open>for (Py_ssize_t i = 0; i < nargs; i++) h_args[i] = _py2h(PyTuple_GET_ITEM(args, i))\<close>;
  \<open>nargs\<close> is signed.
\<close>

function fill_loop ::
  "(nat \<Rightarrow> hpy) \<Rightarrow> int \<Rightarrow> nat \<Rightarrow> hpy list \<Rightarrow> fault + hpy list" where
  "fill_loop item nargs i h_args =
    (if int i < nargs then
       (if i < length h_args
        then fill_loop item nargs (Suc i) (h_args[i := item i])
        else Inl InvalidMemoryAccess)
     else Inr h_args)"
  by pat_completeness auto
termination
  by (relation "measure (\<lambda>(item, nargs, i, h_args). nat nargs - i)") auto

declare fill_loop.simps [simp del]

definition ctx_CallRealFunctionFromTrampoline ::
  "'w runtime \<Rightarrow> 'c \<Rightarrow> pyptr \<Rightarrow> pyptr \<Rightarrow> pyptr \<Rightarrow> ('c, 'w) native \<Rightarrow> HPyMeth_Signature \<Rightarrow> 'w state
     \<Rightarrow> (fault + pyptr) \<times> 'w state" where
  "ctx_CallRealFunctionFromTrampoline py ctx self args kw func sig s =
    (case sig of
       HPyMeth_NOARGS \<Rightarrow>
        (case func of
           Native_noargs f \<Rightarrow>
            (case prim (Ev_noargs (py2h py self)) (f ctx (py2h py self)) s of
               (r, s') \<Rightarrow> (Inr (h2py py r), s'))
         | _ \<Rightarrow> (Inl IncompatibleCall, s))
     | HPyMeth_O \<Rightarrow>
        (case func of
           Native_o f \<Rightarrow>
            (case prim (Ev_o (py2h py self) (py2h py args)) (f ctx (py2h py self) (py2h py args)) s of
               (r, s') \<Rightarrow> (Inr (h2py py r), s'))
         | _ \<Rightarrow> (Inl IncompatibleCall, s))
     | HPyMeth_VARARGS \<Rightarrow>
        (case func of
           Native_varargs f \<Rightarrow>
            (if args = None then (Inl InvalidMemoryAccess, s)
             else
               (let nargs = api_Tuple_GET_SIZE py (world s) args in
                case fill_loop (\<lambda>i. py2h py (api_Tuple_GET_ITEM py (world s) args i)) (sint nargs) 0
                       (alloca HPy_NULL (nargs * 8)) of
                  Inl e \<Rightarrow> (Inl e, s)
                | Inr h_args \<Rightarrow>
                   (case prim (Ev_varargs (py2h py self) h_args (sint nargs))
                            (f ctx (py2h py self) h_args nargs) s of
                      (r, s') \<Rightarrow> (Inr (h2py py r), s'))))
         | _ \<Rightarrow> (Inl IncompatibleCall, s))
     | _ \<Rightarrow> (Inl Aborted, s))"

text \<open>
  The reference the spec compares the SINGLE_ARG branch with: the native function is
  called with the translated receiver and the translation of the sole element (item 0)
  of the positional-argument container.
\<close>

definition expected_SINGLE_ARG ::
  "'w runtime \<Rightarrow> 'c \<Rightarrow> pyptr \<Rightarrow> pyptr \<Rightarrow> ('c \<Rightarrow> hpy \<Rightarrow> hpy \<Rightarrow> 'w \<Rightarrow> hpy \<times> 'w) \<Rightarrow> 'w state
     \<Rightarrow> (fault + pyptr) \<times> 'w state" where
  "expected_SINGLE_ARG py ctx self args f s =
    (let arg = py2h py (api_Tuple_GET_ITEM py (world s) args 0) in
     case prim (Ev_o (py2h py self) arg) (f ctx (py2h py self) arg) s of
       (r, s') \<Rightarrow> (Inr (h2py py r), s'))"

section \<open>A small host for evaluating the bridge\<close>

text \<open>
  A concrete host on which the definitions above can be run. Its state is the list of
  the error messages raised so far. The handle \<open>HPy n\<close> stands for the object \<open>n\<close>.
  Objects: 1 and 7 are callables that succeed, 2 is a callable that raises, 5 is an
  object whose attribute named by object 6 is the method 7, 10 is the empty tuple, 11 is
  the tuple holding object 5, 12 is a tuple of one keyword name (object 30), 20 is a
  dict. A successful call returns the object \<open>100 + 10 * p + k\<close>, where \<open>p\<close> is the
  number of positional arguments it received and \<open>k\<close> is 1 when it received keywords.
\<close>

type_synonym demo_world = "string list"

fun demo_h2py :: "hpy \<Rightarrow> pyptr" where
  "demo_h2py HPy_NULL = None"
| "demo_h2py (HPy n) = Some n"

fun demo_py2h :: "pyptr \<Rightarrow> hpy" where
  "demo_py2h None = HPy_NULL"
| "demo_py2h (Some n) = HPy n"

definition demo_items :: "pyptr \<Rightarrow> pyptr list option" where
  "demo_items p =
    (if p = Some 10 then Some []
     else if p = Some 11 then Some [Some 5]
     else if p = Some 12 then Some [Some 30]
     else None)"

definition demo_apply :: "pyptr \<Rightarrow> nat \<Rightarrow> bool \<Rightarrow> demo_world \<Rightarrow> pyptr \<times> demo_world" where
  "demo_apply callable p k w =
    (if callable = Some 1 \<or> callable = Some 7 then (Some (100 + 10 * p + (if k then 1 else 0)), w)
     else (None, w @ [''TypeError: call failed'']))"

definition demo_GetAttr :: "pyptr \<Rightarrow> pyptr \<Rightarrow> demo_world \<Rightarrow> pyptr \<times> demo_world" where
  "demo_GetAttr v name w =
    (if v = Some 5 \<and> name = Some 6 then (Some 7, w) else (None, w @ [''AttributeError'']))"

text \<open>
  Modelled from the spec: the method-call primitive of the host is not part of the
  sources. The spec describes it as a single primitive that performs attribute lookup by
  name on the receiver (slot 0) and calls the result, honoring kwnames, the entries after
  slot 0 being the arguments of the call (with \<open>nargs = 1\<close> the method is called with
  zero extra arguments).
\<close>

definition demo_VectorcallMethod ::
  "pyptr \<Rightarrow> pyptr list \<Rightarrow> 64 word \<Rightarrow> pyptr \<Rightarrow> demo_world \<Rightarrow> pyptr \<times> demo_world" where
  "demo_VectorcallMethod name args nargsf kwnames w =
    (case args of
       [] \<Rightarrow> (None, w @ [''SystemError''])
     | receiver # rest \<Rightarrow>
        (case demo_GetAttr receiver name w of
           (None, w') \<Rightarrow> (None, w')
         | (Some method, w') \<Rightarrow> demo_apply (Some method) (unat nargsf - 1) (kwnames \<noteq> None) w'))"

definition demo_py :: "demo_world runtime" where
  "demo_py =
    \<lparr> h2py = demo_h2py,
      py2h = demo_py2h,
      api_CallObject = (\<lambda>callable args w.
         demo_apply callable (case demo_items args of None \<Rightarrow> 0 | Some xs \<Rightarrow> length xs) False w),
      api_Call = (\<lambda>callable args kw w.
         case demo_items args of
           None \<Rightarrow> (None, w @ [''SystemError''])
         | Some xs \<Rightarrow> demo_apply callable (length xs) (kw \<noteq> None) w),
      api_Vectorcall = (\<lambda>callable args nargsf kwnames w.
         demo_apply callable (unat nargsf) (kwnames \<noteq> None) w),
      api_Vectorcall_legacy = (\<lambda>callable args nargsf kwnames w.
         demo_apply callable (unat nargsf) (kwnames \<noteq> None) w),
      api_VectorcallMethod = demo_VectorcallMethod,
      api_GetAttr = demo_GetAttr,
      api_DECREF = (\<lambda>v w. w),
      api_Tuple_Check = (\<lambda>w p. demo_items p \<noteq> None),
      api_Tuple_GET_SIZE = (\<lambda>w p. case demo_items p of None \<Rightarrow> 0 | Some xs \<Rightarrow> of_nat (length xs)),
      api_Tuple_GET_ITEM = (\<lambda>w p i.
         case demo_items p of None \<Rightarrow> None | Some xs \<Rightarrow> if i < length xs then xs ! i else None) \<rparr>"

definition demo_ctx :: "demo_world HPyContext" where
  "demo_ctx =
    \<lparr> h_TypeError = HPy 99,
      ctx_Tuple_Check = (\<lambda>w h. demo_items (demo_h2py h) \<noteq> None),
      ctx_Dict_Check = (\<lambda>w h. h = HPy 20),
      ctx_Err_SetString = (\<lambda>h_type msg w. w @ [msg]),
      ctx_Tuple_FromArray = (\<lambda>items n w. if n = 0 then (HPy 10, w) else (HPy_NULL, w @ [''MemoryError''])),
      ctx_Close = (\<lambda>h w. w) \<rparr>"

text \<open>The same context when the host cannot allocate a tuple.\<close>

definition demo_ctx_nomem :: "demo_world HPyContext" where
  "demo_ctx_nomem =
     demo_ctx \<lparr> ctx_Tuple_FromArray := (\<lambda>items n w. (HPy_NULL, w @ [''MemoryError''])) \<rparr>"

definition demo_s0 :: "demo_world state" where
  "demo_s0 = \<lparr> world = [], trace = [] \<rparr>"

text \<open>
  Two native functions for the trampoline: one returns its argument, the other its
  receiver.
\<close>

definition demo_echo :: "unit \<Rightarrow> hpy \<Rightarrow> hpy \<Rightarrow> demo_world \<Rightarrow> hpy \<times> demo_world" where
  "demo_echo ctx self arg w = (arg, w)"

definition demo_self :: "unit \<Rightarrow> hpy \<Rightarrow> demo_world \<Rightarrow> hpy \<times> demo_world" where
  "demo_self ctx self w = (self, w)"

section \<open>Properties of \<open>ctx_CallTupleDict\<close>\<close>

lemmas ctx_prims = HPyTuple_Check_def HPyDict_Check_def HPyErr_SetString_def HPyTuple_FromArray_def
  HPy_Close_def prim_def prim_void_def

lemmas api_prims = PyObject_CallObject_def PyObject_Call_def PyObject_Vectorcall_def
  PyObject_Vectorcall_legacy_def PyObject_VectorcallMethod_def PyObject_GetAttr_def Py_DECREF_def

lemmas demo_defs = demo_py_def demo_ctx_def demo_ctx_nomem_def demo_s0_def demo_items_def
  demo_apply_def demo_GetAttr_def demo_VectorcallMethod_def

text \<open>
  Claim C3. When args is non-null and not tuple-typed, or kw is non-null and not
  dict-typed, \<open>ctx_CallTupleDict\<close> returns the null handle, and all it does to the host
  is to set one error of the kind \<open>ctx->h_TypeError\<close>: the trace grows by that single
  event, so no call primitive is invoked.
\<close>

theorem ctx_CallTupleDict_type_error:
  assumes "(\<not> HPy_IsNull args \<and> \<not> HPyTuple_Check ctx args s) \<or>
           (\<not> HPy_IsNull kw \<and> \<not> HPyDict_Check ctx kw s)"
  shows "ctx_CallTupleDict py ctx callable args kw s =
          (let msg = (if \<not> HPy_IsNull args \<and> \<not> HPyTuple_Check ctx args s
                      then ''HPy_CallTupleDict requires args to be a tuple or null handle''
                      else ''HPy_CallTupleDict requires kw to be a dict or null handle'')
           in (HPy_NULL,
               \<lparr>world = ctx_Err_SetString ctx (h_TypeError ctx) msg (world s),
                trace = trace s @ [Ev_Err_SetString (h_TypeError ctx) msg]\<rparr>))"
  using assms by (auto simp: ctx_CallTupleDict_def HPyErr_SetString_def prim_void_def Let_def)

theorem ctx_CallTupleDict_type_error_witness:
  "(\<not> HPy_IsNull (HPy 20) \<and> \<not> HPyTuple_Check demo_ctx (HPy 20) demo_s0) \<and>
   ctx_CallTupleDict demo_py demo_ctx (HPy 1) (HPy 20) HPy_NULL demo_s0 =
     (HPy_NULL,
      \<lparr>world = [''HPy_CallTupleDict requires args to be a tuple or null handle''],
       trace = [Ev_Err_SetString (HPy 99)
                  ''HPy_CallTupleDict requires args to be a tuple or null handle'']\<rparr>)"
proof -
  have h: "\<not> HPy_IsNull (HPy 20) \<and> \<not> HPyTuple_Check demo_ctx (HPy 20) demo_s0"
    by (simp add: HPyTuple_Check_def demo_defs)
  from h ctx_CallTupleDict_type_error [of "HPy 20" demo_ctx demo_s0 HPy_NULL demo_py "HPy 1"]
  show ?thesis
    by (simp add: HPyTuple_Check_def demo_ctx_def demo_s0_def demo_items_def Let_def)
qed


text \<open>
  Claim C1. When args is null or tuple-typed and kw is null or dict-typed,
  \<open>ctx_CallTupleDict\<close> gives the result of the direct invocation of the call
  primitive (null args passed through when kw is null, an empty tuple in place of null
  args when kw is non-null): the handle it returns is the translation of the object the
  direct call returns, and the state it leaves (the host's state, with any failure the
  call signalled, and the calls made) is the state the direct call leaves, followed only
  by the release of the synthesized tuple when there is one.
\<close>

theorem ctx_CallTupleDict_direct:
  assumes "HPy_IsNull args \<or> HPyTuple_Check ctx args s"
    and "HPy_IsNull kw \<or> HPyDict_Check ctx kw s"
  shows "ctx_CallTupleDict py ctx callable args kw s =
          (case direct_call py ctx callable args kw s of
             (obj, s') \<Rightarrow>
               (py2h py obj,
                if HPy_IsNull args \<and> \<not> HPy_IsNull kw
                then HPy_Close ctx (fst (ctx_Tuple_FromArray ctx [] 0 (world s))) s'
                else s'))"
proof (cases "HPy_IsNull kw")
  case True
  then show ?thesis
    using assms by (auto simp: ctx_CallTupleDict_def direct_call_def)
next
  case False
  note kw = this
  show ?thesis
  proof (cases "HPy_IsNull args")
    case True
    with kw assms show ?thesis
      by (auto simp: ctx_CallTupleDict_def direct_call_def HPyTuple_FromArray_def prim_def
          split: prod.splits)
  next
    case False
    with kw assms show ?thesis
      by (auto simp: ctx_CallTupleDict_def direct_call_def)
  qed
qed

theorem ctx_CallTupleDict_direct_witness:
  "(HPy_IsNull HPy_NULL \<or> HPyTuple_Check demo_ctx HPy_NULL demo_s0) \<and>
   (HPy_IsNull (HPy 20) \<or> HPyDict_Check demo_ctx (HPy 20) demo_s0) \<and>
   direct_call demo_py demo_ctx (HPy 1) HPy_NULL (HPy 20) demo_s0 =
     (Some 101, \<lparr>world = [], trace = [Ev_Tuple_FromArray [] 0, Ev_Call (Some 1) (Some 10) (Some 20)]\<rparr>) \<and>
   ctx_CallTupleDict demo_py demo_ctx (HPy 1) HPy_NULL (HPy 20) demo_s0 =
     (HPy 101,
      \<lparr>world = [],
       trace = [Ev_Tuple_FromArray [] 0, Ev_Call (Some 1) (Some 10) (Some 20), Ev_Close (HPy 10)]\<rparr>) \<and>
   (HPy_IsNull (HPy 11) \<or> HPyTuple_Check demo_ctx (HPy 11) demo_s0) \<and>
   (HPy_IsNull HPy_NULL \<or> HPyDict_Check demo_ctx HPy_NULL demo_s0) \<and>
   direct_call demo_py demo_ctx (HPy 2) (HPy 11) HPy_NULL demo_s0 =
     (None, \<lparr>world = [''TypeError: call failed''], trace = [Ev_CallObject (Some 2) (Some 11)]\<rparr>) \<and>
   ctx_CallTupleDict demo_py demo_ctx (HPy 2) (HPy 11) HPy_NULL demo_s0 =
     (HPy_NULL, \<lparr>world = [''TypeError: call failed''], trace = [Ev_CallObject (Some 2) (Some 11)]\<rparr>)"
proof -
  have d: "direct_call demo_py demo_ctx (HPy 1) HPy_NULL (HPy 20) demo_s0 =
     (Some 101, \<lparr>world = [], trace = [Ev_Tuple_FromArray [] 0, Ev_Call (Some 1) (Some 10) (Some 20)]\<rparr>)"
    by (simp add: direct_call_def ctx_prims api_prims demo_defs)
  have e: "direct_call demo_py demo_ctx (HPy 2) (HPy 11) HPy_NULL demo_s0 =
     (None, \<lparr>world = [''TypeError: call failed''], trace = [Ev_CallObject (Some 2) (Some 11)]\<rparr>)"
    by (simp add: direct_call_def ctx_prims api_prims demo_defs)
  have h1: "HPy_IsNull HPy_NULL \<or> HPyTuple_Check demo_ctx HPy_NULL demo_s0" by simp
  have h2: "HPy_IsNull (HPy 20) \<or> HPyDict_Check demo_ctx (HPy 20) demo_s0"
    by (simp add: HPyDict_Check_def demo_ctx_def)
  have h3: "HPy_IsNull (HPy 11) \<or> HPyTuple_Check demo_ctx (HPy 11) demo_s0"
    by (simp add: HPyTuple_Check_def demo_ctx_def demo_items_def)
  have h4: "HPy_IsNull HPy_NULL \<or> HPyDict_Check demo_ctx HPy_NULL demo_s0" by simp
  have a: "ctx_CallTupleDict demo_py demo_ctx (HPy 1) HPy_NULL (HPy 20) demo_s0 =
     (HPy 101,
      \<lparr>world = [],
       trace = [Ev_Tuple_FromArray [] 0, Ev_Call (Some 1) (Some 10) (Some 20), Ev_Close (HPy 10)]\<rparr>)"
    by (rule trans [OF ctx_CallTupleDict_direct [OF h1 h2]], simp only: d)
       (simp add: HPy_Close_def prim_void_def demo_py_def demo_ctx_def demo_s0_def)
  have b: "ctx_CallTupleDict demo_py demo_ctx (HPy 2) (HPy 11) HPy_NULL demo_s0 =
     (HPy_NULL, \<lparr>world = [''TypeError: call failed''], trace = [Ev_CallObject (Some 2) (Some 11)]\<rparr>)"
    by (rule trans [OF ctx_CallTupleDict_direct [OF h3 h4]], simp only: e)
       (simp add: demo_py_def)
  from h1 h2 d a h3 h4 e b show ?thesis by blast
qed

text \<open>
  Claim C6. With args null and kw non-null and dict-typed, \<open>ctx_CallTupleDict\<close> makes
  exactly three calls, in this order: it synthesizes an empty tuple, invokes
  \<open>PyObject_Call\<close> with that tuple and kw, and closes the synthesized tuple once. This
  holds whatever the call returns, \<open>NULL\<close> (failure) included.
\<close>

theorem ctx_CallTupleDict_releases_once:
  assumes "HPy_IsNull args" and "\<not> HPy_IsNull kw" and "HPyDict_Check ctx kw s"
  shows "let (empty_tuple, w1) = ctx_Tuple_FromArray ctx [] 0 (world s);
             (obj, w2) = api_Call py (h2py py callable) (h2py py empty_tuple) (h2py py kw) w1
         in ctx_CallTupleDict py ctx callable args kw s =
              (py2h py obj,
               \<lparr>world = ctx_Close ctx empty_tuple w2,
                trace = trace s @
                  [Ev_Tuple_FromArray [] 0,
                   Ev_Call (h2py py callable) (h2py py empty_tuple) (h2py py kw),
                   Ev_Close empty_tuple]\<rparr>)"
  using assms
  by (auto simp: ctx_CallTupleDict_def ctx_prims api_prims split: prod.splits)

theorem ctx_CallTupleDict_releases_once_witness:
  "HPy_IsNull HPy_NULL \<and> \<not> HPy_IsNull (HPy 20) \<and> HPyDict_Check demo_ctx (HPy 20) demo_s0 \<and>
   ctx_CallTupleDict demo_py demo_ctx (HPy 1) HPy_NULL (HPy 20) demo_s0 =
     (HPy 101,
      \<lparr>world = [],
       trace = [Ev_Tuple_FromArray [] 0, Ev_Call (Some 1) (Some 10) (Some 20), Ev_Close (HPy 10)]\<rparr>) \<and>
   ctx_CallTupleDict demo_py demo_ctx (HPy 2) HPy_NULL (HPy 20) demo_s0 =
     (HPy_NULL,
      \<lparr>world = [''TypeError: call failed''],
       trace = [Ev_Tuple_FromArray [] 0, Ev_Call (Some 2) (Some 10) (Some 20), Ev_Close (HPy 10)]\<rparr>)"
proof -
  have h: "HPyDict_Check demo_ctx (HPy 20) demo_s0"
    by (simp add: HPyDict_Check_def demo_ctx_def)
  have n: "HPy_IsNull HPy_NULL" "\<not> HPy_IsNull (HPy 20)" by simp_all
  from ctx_CallTupleDict_releases_once [OF n h, of demo_py "HPy 1"]
       ctx_CallTupleDict_releases_once [OF n h, of demo_py "HPy 2"] h
  show ?thesis
    by (simp add: demo_defs)
qed

text \<open>
  Claim C10. With args null and kw non-null and dict-typed, when \<open>HPyTuple_FromArray\<close>
  returns the null handle (and the null handle translates to \<open>NULL\<close>), no error is
  returned before the call: \<open>PyObject_Call\<close> is still invoked, with \<open>NULL\<close> as its
  positional container, and the null handle is then closed.
\<close>

theorem ctx_CallTupleDict_unchecked_synthesis:
  assumes "HPy_IsNull args" and "\<not> HPy_IsNull kw" and "HPyDict_Check ctx kw s"
    and "fst (ctx_Tuple_FromArray ctx [] 0 (world s)) = HPy_NULL"
    and "h2py py HPy_NULL = None"
  shows "let w1 = snd (ctx_Tuple_FromArray ctx [] 0 (world s));
             (obj, w2) = api_Call py (h2py py callable) None (h2py py kw) w1
         in ctx_CallTupleDict py ctx callable args kw s =
              (py2h py obj,
               \<lparr>world = ctx_Close ctx HPy_NULL w2,
                trace = trace s @
                  [Ev_Tuple_FromArray [] 0,
                   Ev_Call (h2py py callable) None (h2py py kw),
                   Ev_Close HPy_NULL]\<rparr>)"
  using assms
  by (auto simp: ctx_CallTupleDict_def ctx_prims api_prims split: prod.splits)

theorem ctx_CallTupleDict_unchecked_synthesis_witness:
  "HPy_IsNull HPy_NULL \<and> \<not> HPy_IsNull (HPy 20) \<and> HPyDict_Check demo_ctx_nomem (HPy 20) demo_s0 \<and>
   fst (ctx_Tuple_FromArray demo_ctx_nomem [] 0 (world demo_s0)) = HPy_NULL \<and>
   h2py demo_py HPy_NULL = None \<and>
   ctx_CallTupleDict demo_py demo_ctx_nomem (HPy 1) HPy_NULL (HPy 20) demo_s0 =
     (HPy_NULL,
      \<lparr>world = [''MemoryError'', ''SystemError''],
       trace = [Ev_Tuple_FromArray [] 0, Ev_Call (Some 1) None (Some 20), Ev_Close HPy_NULL]\<rparr>)"
proof -
  have h: "HPyDict_Check demo_ctx_nomem (HPy 20) demo_s0"
    by (simp add: HPyDict_Check_def demo_ctx_nomem_def demo_ctx_def)
  have n: "HPy_IsNull HPy_NULL" "\<not> HPy_IsNull (HPy 20)" by simp_all
  have f: "fst (ctx_Tuple_FromArray demo_ctx_nomem [] 0 (world demo_s0)) = HPy_NULL"
    by (simp add: demo_ctx_nomem_def)
  have z: "h2py demo_py HPy_NULL = None"
    by (simp add: demo_py_def)
  from ctx_CallTupleDict_unchecked_synthesis [OF n h f z, of "HPy 1"] h f z
  show ?thesis
    by (simp add: demo_defs)
qed

section \<open>Properties of \<open>ctx_Call\<close> and \<open>ctx_CallMethod\<close>\<close>

lemma stage_loop_take:
  "i \<le> n \<Longrightarrow> n \<le> length h_args \<Longrightarrow> length args = n \<Longrightarrow>
   stage_loop conv h_args n i args = Inr (take i args @ map conv (take (n - i) (drop i h_args)))"
proof (induction conv h_args n i args rule: stage_loop.induct)
  case (1 conv h_args n i args)
  show ?case
  proof (cases "i < n")
    case True
    with "1.prems" have lt: "i < length h_args" "i < length args" by simp_all
    have step: "stage_loop conv h_args n i args =
                stage_loop conv h_args n (Suc i) (args[i := conv (h_args ! i)])"
      using True lt by (subst stage_loop.simps) simp
    have ih: "stage_loop conv h_args n (Suc i) (args[i := conv (h_args ! i)]) =
              Inr (take (Suc i) (args[i := conv (h_args ! i)]) @
                   map conv (take (n - Suc i) (drop (Suc i) h_args)))"
      using "1.IH" [OF True] True lt "1.prems" by simp
    have a: "take (Suc i) (args[i := conv (h_args ! i)]) = take i args @ [conv (h_args ! i)]"
      using lt by (simp add: take_Suc_conv_app_nth)
    have b: "take (n - i) (drop i h_args) = h_args ! i # take (n - Suc i) (drop (Suc i) h_args)"
      using True lt by (metis Cons_nth_drop_Suc Suc_diff_Suc take_Suc_Cons)
    show ?thesis
      unfolding step ih a b by simp
  next
    case False
    with "1.prems" have "i = n" by simp
    then show ?thesis using "1.prems" by (subst stage_loop.simps) simp
  qed
qed

lemma alloca_length:
  fixes n :: "64 word"
  assumes "unat n < 2 ^ 61"
  shows "length (alloca fill (n * 8)) = unat n"
proof -
  have "unat n * 8 < 2 ^ 64" using assms by simp
  then have "unat (n * 8) = unat n * 8"
    by (simp add: unat_word_ariths)
  then show ?thesis by (simp add: alloca_def)
qed

lemma count_all_args_ok:
  fixes K :: "64 word"
  assumes "HPy_IsNull h_kwnames \<and> K = 0 \<or>
           \<not> HPy_IsNull h_kwnames \<and> h2py py h_kwnames \<noteq> None \<and>
           api_Tuple_Check py (world s) (h2py py h_kwnames) \<and>
           api_Tuple_GET_SIZE py (world s) (h2py py h_kwnames) = K"
    and "unat nargs + unat K < 2 ^ 64"
  shows "count_all_args py nargs h_kwnames s =
           Inr (if HPy_IsNull h_kwnames then None else h2py py h_kwnames, nargs + K)"
proof -
  have "nargs \<le> nargs + K"
    using assms(2) by (simp add: no_olen_add_nat)
  then show ?thesis
    using assms(1) by (auto simp: count_all_args_def Let_def)
qed

lemma staged_buffer:
  fixes K :: "64 word"
  assumes "unat nargs + unat K < 2 ^ 64"
    and "unat nargs + unat K \<le> length h_args"
    and "length h_args < 2 ^ 61"
  shows "stage_loop conv h_args (unat (nargs + K)) 0 (alloca None ((nargs + K) * 8)) =
           Inr (map conv (take (unat nargs + unat K) h_args))"
proof -
  have n: "unat (nargs + K) = unat nargs + unat K"
    using assms(1) by (simp add: unat_word_ariths)
  have "unat (nargs + K) < 2 ^ 61" using n assms by linarith
  then have len: "length (alloca (None :: pyptr) ((nargs + K) * 8)) = unat (nargs + K)"
    by (rule alloca_length)
  have "stage_loop conv h_args (unat (nargs + K)) 0 (alloca None ((nargs + K) * 8)) =
        Inr (take 0 (alloca None ((nargs + K) * 8)) @
             map conv (take (unat (nargs + K) - 0) (drop 0 h_args)))"
    by (rule stage_loop_take) (use n assms len in simp_all)
  then show ?thesis by (simp add: n)
qed


text \<open>
  Claim C2. Let \<open>N = nargs\<close> and let \<open>K\<close> be 0 when kwnames is null and the length of
  the keyword-name tuple otherwise, with \<open>N + K\<close> not overflowing, and let the caller's
  array hold at least \<open>N + K\<close> handles (an array of 8-byte handles has fewer than
  \<open>2^61\<close> entries). Then \<open>ctx_Call\<close> stages exactly \<open>N + K\<close> references, the
  translation of \<open>h_args[i]\<close> at position \<open>i\<close>, and then makes one call to the
  vector-call primitive with that buffer, the count \<open>nargs\<close> and kwnames.
\<close>

theorem ctx_Call_stages:
  fixes K :: "64 word"
  assumes "HPy_IsNull h_kwnames \<and> K = 0 \<or>
           \<not> HPy_IsNull h_kwnames \<and> h2py py h_kwnames \<noteq> None \<and>
           api_Tuple_Check py (world s) (h2py py h_kwnames) \<and>
           api_Tuple_GET_SIZE py (world s) (h2py py h_kwnames) = K"
    and "unat nargs + unat K < 2 ^ 64"
    and "unat nargs + unat K \<le> length h_args"
    and "length h_args < 2 ^ 61"
  shows "let n = unat nargs + unat K;
             args = map (h2py py) (take n h_args);
             kwnames = (if HPy_IsNull h_kwnames then None else h2py py h_kwnames)
         in length args = n \<and> (\<forall>i<n. args ! i = h2py py (h_args ! i)) \<and>
            ctx_Call py PY_VERSION_HEX callable ctx h_callable h_args nargs h_kwnames s =
              (if PY_VERSION_HEX < 0x03090000 then
                 (case api_Vectorcall_legacy py (h2py py callable) args nargs kwnames (world s) of
                    (result, w') \<Rightarrow>
                      (Inr (py2h py result),
                       \<lparr>world = w',
                        trace = trace s @ [Ev_Vectorcall_legacy (h2py py callable) args nargs kwnames]\<rparr>))
               else
                 (case api_Vectorcall py (h2py py h_callable) args nargs kwnames (world s) of
                    (result, w') \<Rightarrow>
                      (Inr (py2h py result),
                       \<lparr>world = w',
                        trace = trace s @ [Ev_Vectorcall (h2py py h_callable) args nargs kwnames]\<rparr>)))"
proof -
  have c: "count_all_args py nargs h_kwnames s =
             Inr (if HPy_IsNull h_kwnames then None else h2py py h_kwnames, nargs + K)"
    using assms(1,2) by (rule count_all_args_ok)
  have b: "stage_loop (h2py py) h_args (unat (nargs + K)) 0 (alloca None ((nargs + K) * 8)) =
             Inr (map (h2py py) (take (unat nargs + unat K) h_args))"
    using assms(2,3,4) by (rule staged_buffer)
  have l: "length (map (h2py py) (take (unat nargs + unat K) h_args)) = unat nargs + unat K"
    using assms(3) by simp
  have e: "\<forall>i<unat nargs + unat K.
             map (h2py py) (take (unat nargs + unat K) h_args) ! i = h2py py (h_args ! i)"
    using assms(3) by simp
  show ?thesis
    unfolding Let_def
    apply (intro conjI)
      apply (rule l)
     apply (rule e)
    apply (simp only: ctx_Call_def c b sum.case prod.case)
    apply (simp add: PyObject_Vectorcall_def PyObject_Vectorcall_legacy_def prim_def
        split: prod.splits)
    done
qed

theorem ctx_Call_stages_witness:
  "(\<not> HPy_IsNull (HPy 12) \<and> h2py demo_py (HPy 12) \<noteq> None \<and>
    api_Tuple_Check demo_py (world demo_s0) (h2py demo_py (HPy 12)) \<and>
    api_Tuple_GET_SIZE demo_py (world demo_s0) (h2py demo_py (HPy 12)) = 1) \<and>
   unat (1 :: 64 word) + unat (1 :: 64 word) \<le> length [HPy 5, HPy 1] \<and>
   ctx_Call demo_py 0x030A0000 (HPy 2) demo_ctx (HPy 1) [HPy 5, HPy 1] 1 (HPy 12) demo_s0 =
     (Inr (HPy 111),
      \<lparr>world = [], trace = [Ev_Vectorcall (Some 1) [Some 5, Some 1] 1 (Some 12)]\<rparr>)"
proof -
  have k: "HPy_IsNull (HPy 12) \<and> (1 :: 64 word) = 0 \<or>
           \<not> HPy_IsNull (HPy 12) \<and> h2py demo_py (HPy 12) \<noteq> None \<and>
           api_Tuple_Check demo_py (world demo_s0) (h2py demo_py (HPy 12)) \<and>
           api_Tuple_GET_SIZE demo_py (world demo_s0) (h2py demo_py (HPy 12)) = 1"
    by (simp add: demo_py_def demo_items_def)
  have o: "unat (1 :: 64 word) + unat (1 :: 64 word) < 2 ^ 64" by simp
  have n: "unat (1 :: 64 word) + unat (1 :: 64 word) \<le> length [HPy 5, HPy 1]" by simp
  have m: "length [HPy 5, HPy 1] < 2 ^ 61" by simp
  from ctx_Call_stages [OF k o n m, where PY_VERSION_HEX = "0x030A0000" and callable = "HPy 2"
        and ctx = demo_ctx and h_callable = "HPy 1"] k n
  show ?thesis
    by (simp add: Let_def demo_py_def demo_s0_def demo_apply_def demo_items_def)
qed

text \<open>
  Claim C7. On a host older than 3.9 \<open>ctx_CallMethod\<close> looks the attribute up on the
  receiver in slot 0. When the lookup fails it returns the null handle and nothing else
  is called. Otherwise it calls the resolved method with the whole staged buffer, the
  count \<open>nargs\<close> and \<open>NULL\<close> in place of kwnames, and then releases its reference to
  the method.
\<close>

theorem ctx_CallMethod_fallback:
  fixes K :: "64 word"
  assumes "PY_VERSION_HEX < 0x03090000"
    and "HPy_IsNull h_kwnames \<and> K = 0 \<or>
         \<not> HPy_IsNull h_kwnames \<and> h2py py h_kwnames \<noteq> None \<and>
         api_Tuple_Check py (world s) (h2py py h_kwnames) \<and>
         api_Tuple_GET_SIZE py (world s) (h2py py h_kwnames) = K"
    and "unat nargs + unat K < 2 ^ 64"
    and "unat nargs + unat K \<le> length h_args"
    and "length h_args < 2 ^ 61"
    and "0 < unat nargs + unat K"
  shows "let args = map (h2py py) (take (unat nargs + unat K) h_args);
             receiver = h2py py (h_args ! 0);
             (method, w1) = api_GetAttr py receiver (h2py py h_name) (world s)
         in ctx_CallMethod py PY_VERSION_HEX ctx h_name h_args nargs h_kwnames s =
              (if method = None then
                 (Inr HPy_NULL,
                  \<lparr>world = w1, trace = trace s @ [Ev_GetAttr receiver (h2py py h_name)]\<rparr>)
               else
                 (case api_Vectorcall_legacy py method args nargs None w1 of
                    (result, w2) \<Rightarrow>
                      (Inr (py2h py result),
                       \<lparr>world = api_DECREF py method w2,
                        trace = trace s @
                          [Ev_GetAttr receiver (h2py py h_name),
                           Ev_Vectorcall_legacy method args nargs None,
                           Ev_DECREF method]\<rparr>)))"
proof -
  have c: "count_all_args py nargs h_kwnames s =
             Inr (if HPy_IsNull h_kwnames then None else h2py py h_kwnames, nargs + K)"
    using assms(2,3) by (rule count_all_args_ok)
  have b: "stage_loop (h2py py) h_args (unat (nargs + K)) 0 (alloca None ((nargs + K) * 8)) =
             Inr (map (h2py py) (take (unat nargs + unat K) h_args))"
    using assms(3,4,5) by (rule staged_buffer)
  obtain x xs where h: "h_args = x # xs"
    using assms(4,6) by (cases h_args) auto
  obtain m where n: "unat nargs + unat K = Suc m"
    using assms(6) by (cases "unat nargs + unat K") auto
  have a: "map (h2py py) (take (unat nargs + unat K) h_args) =
             h2py py (h_args ! 0) # map (h2py py) (take m xs)"
    by (simp add: h n)
  have "ctx_CallMethod py PY_VERSION_HEX ctx h_name h_args nargs h_kwnames s =
          (case PyObject_GetAttr py (h2py py (h_args ! 0)) (h2py py h_name) s of
             (method, s1) \<Rightarrow>
               if method = None then (Inr HPy_NULL, s1)
               else
                 (case PyObject_Vectorcall_legacy py method
                         (map (h2py py) (take (unat nargs + unat K) h_args)) nargs None s1 of
                    (result, s2) \<Rightarrow> (Inr (py2h py result), Py_DECREF py method s2)))"
    by (simp only: ctx_CallMethod_def c b sum.case prod.case assms(1) if_True)
       (simp only: a list.case)
  then show ?thesis
    by (simp add: PyObject_GetAttr_def PyObject_Vectorcall_legacy_def
        Py_DECREF_def prim_def prim_void_def Let_def split: prod.splits)
qed

theorem ctx_CallMethod_fallback_witness:
  "(0x03080000 :: nat) < 0x03090000 \<and> HPy_IsNull HPy_NULL \<and>
   0 < unat (1 :: 64 word) + unat (0 :: 64 word) \<and>
   ctx_CallMethod demo_py 0x03080000 demo_ctx (HPy 6) [HPy 5] 1 HPy_NULL demo_s0 =
     (Inr (HPy 110),
      \<lparr>world = [],
       trace = [Ev_GetAttr (Some 5) (Some 6), Ev_Vectorcall_legacy (Some 7) [Some 5] 1 None,
                Ev_DECREF (Some 7)]\<rparr>) \<and>
   ctx_CallMethod demo_py 0x03080000 demo_ctx (HPy 6) [HPy 4] 1 HPy_NULL demo_s0 =
     (Inr HPy_NULL,
      \<lparr>world = [''AttributeError''], trace = [Ev_GetAttr (Some 4) (Some 6)]\<rparr>)"
proof -
  have v: "(0x03080000 :: nat) < 0x03090000" by simp
  have k: "HPy_IsNull HPy_NULL \<and> (0 :: 64 word) = 0 \<or>
           \<not> HPy_IsNull HPy_NULL \<and> h2py demo_py HPy_NULL \<noteq> None \<and>
           api_Tuple_Check demo_py (world demo_s0) (h2py demo_py HPy_NULL) \<and>
           api_Tuple_GET_SIZE demo_py (world demo_s0) (h2py demo_py HPy_NULL) = 0"
    by simp
  have o: "unat (1 :: 64 word) + unat (0 :: 64 word) < 2 ^ 64" by simp
  have p: "0 < unat (1 :: 64 word) + unat (0 :: 64 word)" by simp
  have n5: "unat (1 :: 64 word) + unat (0 :: 64 word) \<le> length [HPy 5]" by simp
  have n4: "unat (1 :: 64 word) + unat (0 :: 64 word) \<le> length [HPy 4]" by simp
  have m5: "length [HPy 5] < 2 ^ 61" by simp
  have m4: "length [HPy 4] < 2 ^ 61" by simp
  from ctx_CallMethod_fallback [OF v k o n5 m5 p, where ctx = demo_ctx and h_name = "HPy 6"]
       ctx_CallMethod_fallback [OF v k o n4 m4 p, where ctx = demo_ctx and h_name = "HPy 6"] v p
  show ?thesis
    by (simp add: Let_def demo_py_def demo_s0_def demo_apply_def demo_GetAttr_def)
qed

lemma demo_count_kw: "count_all_args demo_py 1 (HPy 12) demo_s0 = Inr (Some 12, 2)"
  by (simp add: count_all_args_def demo_py_def demo_items_def Let_def)

lemma demo_count_null: "count_all_args demo_py 1 HPy_NULL demo_s0 = Inr (None, 1)"
  by (simp add: count_all_args_def)

lemma demo_stage_two:
  "stage_loop (h2py demo_py) [HPy 5, HPy 1] (unat (2 :: 64 word)) 0 (alloca None (2 * 8)) =
     Inr [Some 5, Some 1]"
  using staged_buffer [of 1 1 "[HPy 5, HPy 1]" "h2py demo_py"]
  by (simp add: demo_py_def)

lemma demo_stage_one:
  "stage_loop (h2py demo_py) [HPy 5] (unat (1 :: 64 word)) 0 (alloca None (1 * 8)) = Inr [Some 5]"
  using staged_buffer [of 1 0 "[HPy 5]" "h2py demo_py"]
  by (simp add: demo_py_def)

text \<open>
  Claim C5. On the small host the fallback branches do not give the results of the
  modern ones. \<open>ctx_CallMethod\<close> with a receiver and one keyword value returns object
  110 (one positional argument, no keywords) on a host older than 3.9 and 101 (no
  positional argument, keywords) otherwise; with a receiver only it returns 110 and 100.
  \<open>ctx_Call\<close> on a host older than 3.9 calls what \<open>callable\<close> denotes, not
  \<open>h_callable\<close>.
\<close>

theorem ctx_CallMethod_legacy_differs:
  "fst (ctx_CallMethod demo_py 0x03080000 demo_ctx (HPy 6) [HPy 5, HPy 1] 1 (HPy 12) demo_s0) = Inr (HPy 110) \<and>
   fst (ctx_CallMethod demo_py 0x03090000 demo_ctx (HPy 6) [HPy 5, HPy 1] 1 (HPy 12) demo_s0) = Inr (HPy 101) \<and>
   fst (ctx_CallMethod demo_py 0x03080000 demo_ctx (HPy 6) [HPy 5] 1 HPy_NULL demo_s0) = Inr (HPy 110) \<and>
   fst (ctx_CallMethod demo_py 0x03090000 demo_ctx (HPy 6) [HPy 5] 1 HPy_NULL demo_s0) = Inr (HPy 100) \<and>
   fst (ctx_Call demo_py 0x03080000 (HPy 2) demo_ctx (HPy 1) [HPy 5] 1 HPy_NULL demo_s0) = Inr HPy_NULL \<and>
   fst (ctx_Call demo_py 0x03090000 (HPy 2) demo_ctx (HPy 1) [HPy 5] 1 HPy_NULL demo_s0) = Inr (HPy 110)"
proof (intro conjI)
  show "fst (ctx_CallMethod demo_py 0x03080000 demo_ctx (HPy 6) [HPy 5, HPy 1] 1 (HPy 12) demo_s0) = Inr (HPy 110)"
    by (simp only: ctx_CallMethod_def demo_count_kw demo_stage_two sum.case prod.case)
       (simp add: api_prims prim_def prim_void_def demo_defs)
  show "fst (ctx_CallMethod demo_py 0x03090000 demo_ctx (HPy 6) [HPy 5, HPy 1] 1 (HPy 12) demo_s0) = Inr (HPy 101)"
    by (simp only: ctx_CallMethod_def demo_count_kw demo_stage_two sum.case prod.case)
       (simp add: api_prims prim_def prim_void_def demo_defs)
  show "fst (ctx_CallMethod demo_py 0x03080000 demo_ctx (HPy 6) [HPy 5] 1 HPy_NULL demo_s0) = Inr (HPy 110)"
    by (simp only: ctx_CallMethod_def demo_count_null demo_stage_one sum.case prod.case)
       (simp add: api_prims prim_def prim_void_def demo_defs)
  show "fst (ctx_CallMethod demo_py 0x03090000 demo_ctx (HPy 6) [HPy 5] 1 HPy_NULL demo_s0) = Inr (HPy 100)"
    by (simp only: ctx_CallMethod_def demo_count_null demo_stage_one sum.case prod.case)
       (simp add: api_prims prim_def prim_void_def demo_defs)
  show "fst (ctx_Call demo_py 0x03080000 (HPy 2) demo_ctx (HPy 1) [HPy 5] 1 HPy_NULL demo_s0) = Inr HPy_NULL"
    by (simp only: ctx_Call_def demo_count_null demo_stage_one sum.case prod.case)
       (simp add: api_prims prim_def prim_void_def demo_defs)
  show "fst (ctx_Call demo_py 0x03090000 (HPy 2) demo_ctx (HPy 1) [HPy 5] 1 HPy_NULL demo_s0) = Inr (HPy 110)"
    by (simp only: ctx_Call_def demo_count_null demo_stage_one sum.case prod.case)
       (simp add: api_prims prim_def prim_void_def demo_defs)
qed

section \<open>Properties of the trampoline dispatcher\<close>

text \<open>
  Claim C4, as stated, fails: with the tuple 11, whose sole element is object 5, as the
  positional-argument container, the native function receives the handle of the tuple
  itself, not the handle of its element.
\<close>

theorem trampoline_O_not_sole_element:
  "ctx_CallRealFunctionFromTrampoline demo_py () (Some 5) (Some 11) None (Native_o demo_echo) HPyMeth_O demo_s0
     = (Inr (Some 11), \<lparr>world = [], trace = [Ev_o (HPy 5) (HPy 11)]\<rparr>) \<and>
   expected_SINGLE_ARG demo_py () (Some 5) (Some 11) demo_echo demo_s0
     = (Inr (Some 5), \<lparr>world = [], trace = [Ev_o (HPy 5) (HPy 5)]\<rparr>) \<and>
   ctx_CallRealFunctionFromTrampoline demo_py () (Some 5) (Some 11) None (Native_o demo_echo) HPyMeth_O demo_s0
     \<noteq> expected_SINGLE_ARG demo_py () (Some 5) (Some 11) demo_echo demo_s0"
  by (simp add: ctx_CallRealFunctionFromTrampoline_def expected_SINGLE_ARG_def prim_def demo_echo_def
      demo_py_def demo_s0_def demo_items_def Let_def)

text \<open>
  Claim C4, amended. For every call with tag \<open>HPyMeth_O\<close> and a native function of the
  one-argument shape, the dispatcher calls the function with the context, the translated
  receiver and the translation of the \<open>args\<close> object itself (no element is taken out
  of it), and returns the function's result translated back to a native reference.
\<close>

theorem trampoline_O_passes_args_object:
  "ctx_CallRealFunctionFromTrampoline py ctx self args kw (Native_o f) HPyMeth_O s =
     (case f ctx (py2h py self) (py2h py args) (world s) of
        (r, w') \<Rightarrow>
          (Inr (h2py py r),
           \<lparr>world = w', trace = trace s @ [Ev_o (py2h py self) (py2h py args)]\<rparr>))"
  by (simp add: ctx_CallRealFunctionFromTrampoline_def prim_def split: prod.splits)

theorem trampoline_O_passes_args_object_witness:
  "ctx_CallRealFunctionFromTrampoline demo_py () (Some 5) (Some 30) None (Native_o demo_echo) HPyMeth_O demo_s0 =
     (Inr (Some 30), \<lparr>world = [], trace = [Ev_o (HPy 5) (HPy 30)]\<rparr>)"
  using trampoline_O_passes_args_object [of demo_py "()" "Some 5" "Some 30" None demo_echo demo_s0]
  by (simp add: demo_echo_def demo_py_def demo_s0_def)

text \<open>
  Claim C8. With tag \<open>HPyMeth_NOARGS\<close> the result of the dispatcher is the same for any
  two args and kw containers, and a native function of the zero-argument shape is called
  with the context and the translated receiver only.
\<close>

theorem trampoline_NOARGS_ignores_containers:
  "ctx_CallRealFunctionFromTrampoline py ctx self args kw func HPyMeth_NOARGS s =
     ctx_CallRealFunctionFromTrampoline py ctx self args' kw' func HPyMeth_NOARGS s \<and>
   ctx_CallRealFunctionFromTrampoline py ctx self args kw (Native_noargs f) HPyMeth_NOARGS s =
     (case f ctx (py2h py self) (world s) of
        (r, w') \<Rightarrow>
          (Inr (h2py py r), \<lparr>world = w', trace = trace s @ [Ev_noargs (py2h py self)]\<rparr>))"
  by (simp add: ctx_CallRealFunctionFromTrampoline_def prim_def split: prod.splits)

theorem trampoline_NOARGS_ignores_containers_witness:
  "ctx_CallRealFunctionFromTrampoline demo_py () (Some 5) (Some 11) (Some 20) (Native_noargs demo_self)
     HPyMeth_NOARGS demo_s0 =
   ctx_CallRealFunctionFromTrampoline demo_py () (Some 5) None None (Native_noargs demo_self)
     HPyMeth_NOARGS demo_s0 \<and>
   ctx_CallRealFunctionFromTrampoline demo_py () (Some 5) (Some 11) (Some 20) (Native_noargs demo_self)
     HPyMeth_NOARGS demo_s0 =
     (Inr (Some 5), \<lparr>world = [], trace = [Ev_noargs (HPy 5)]\<rparr>)"
proof -
  note t = trampoline_NOARGS_ignores_containers
    [of demo_py "()" "Some 5" "Some 11" "Some 20" "Native_noargs demo_self" demo_s0 None None demo_self]
  have "ctx_CallRealFunctionFromTrampoline demo_py () (Some 5) (Some 11) (Some 20)
          (Native_noargs demo_self) HPyMeth_NOARGS demo_s0 =
        (Inr (Some 5), \<lparr>world = [], trace = [Ev_noargs (HPy 5)]\<rparr>)"
    using conjunct2 [OF t] by (simp add: demo_self_def demo_py_def demo_s0_def)
  with conjunct1 [OF t] show ?thesis by (rule conjI)
qed

text \<open>
  Claim C9. For every tag other than \<open>HPyMeth_NOARGS\<close>, \<open>HPyMeth_O\<close> and
  \<open>HPyMeth_VARARGS\<close> (the reserved keywords variant included) the dispatcher aborts:
  it returns no value and the state is the one it started from, so no native function was
  called.
\<close>

theorem trampoline_unsupported_aborts:
  assumes "sig \<notin> {HPyMeth_NOARGS, HPyMeth_O, HPyMeth_VARARGS}"
  shows "ctx_CallRealFunctionFromTrampoline py ctx self args kw func sig s = (Inl Aborted, s)"
  using assms by (cases sig) (simp_all add: ctx_CallRealFunctionFromTrampoline_def)

theorem trampoline_unsupported_aborts_witness:
  "HPy_METH_KEYWORDS \<notin> {HPyMeth_NOARGS, HPyMeth_O, HPyMeth_VARARGS} \<and>
   ctx_CallRealFunctionFromTrampoline demo_py () (Some 5) (Some 11) (Some 20) (Native_o demo_echo)
     HPy_METH_KEYWORDS demo_s0 = (Inl Aborted, demo_s0)"
proof -
  have h: "HPy_METH_KEYWORDS \<notin> {HPyMeth_NOARGS, HPyMeth_O, HPyMeth_VARARGS}" by simp
  from trampoline_unsupported_aborts [OF h] h show ?thesis by simp
qed

end
